theory Spec2Isabelle
  imports Complex_Main
begin

section \<open>Values of the host language\<close>

text \<open>
  A string is a list of code units; the model covers the code units below 256, which is
  what \<^typ>\<open>char\<close> holds. A number is a double: the finite ones are rationals, and
  order comparisons on doubles are exact, so a finite double is modelled by the rational
  it denotes. The three special values are kept apart, with the comparison rules of
  IEEE 754: every comparison with \<open>NaN\<close> is false.
\<close>

datatype number = Finite rat | PosInfinity | NegInfinity | NaN

fun js_le :: "number \<Rightarrow> number \<Rightarrow> bool" where
  "js_le NaN _ = False"
| "js_le _ NaN = False"
| "js_le NegInfinity _ = True"
| "js_le _ PosInfinity = True"
| "js_le (Finite x) (Finite y) = (x \<le> y)"
| "js_le _ _ = False"

definition js_ge :: "number \<Rightarrow> number \<Rightarrow> bool" where
  "js_ge a b = js_le b a"

fun isFinite :: "number \<Rightarrow> bool" where
  "isFinite (Finite _) = True"
| "isFinite _ = False"

text \<open>
  Errors are values. \<open>Error m\<close> is \<open>new Error(m)\<close>; \<open>TypeError p\<close> is the error the
  runtime raises when property \<open>p\<close> is read from \<open>undefined\<close>; \<open>Wrapped pre e\<close> is the
  re-throw \<open>new Error(`pre: ${e.message}`)\<close> of a \<open>catch\<close> block, with the cause kept.
\<close>

datatype error = Error string | TypeError string | Wrapped string error

section \<open>Phone and amount validation (utils/validation)\<close>

text \<open>The class \<open>\s\<close> on code units below 256: tab to carriage return, space, no-break space.\<close>

definition is_space :: "char \<Rightarrow> bool" where
  "is_space c = (let n = (of_char c :: nat) in (9 \<le> n \<and> n \<le> 13) \<or> n = 32 \<or> n = 160)"

text \<open>\<open>phoneNumber.replace(/[\s\-\+]/g, '')\<close>\<close>

definition strip_separators :: "string \<Rightarrow> string" where
  "strip_separators s = filter (\<lambda>c. \<not> (is_space c \<or> c = CHR ''-'' \<or> c = CHR ''+'')) s"

definition startsWith :: "string \<Rightarrow> string \<Rightarrow> bool" where
  "startsWith s p = (take (length p) s = p)"

definition substring :: "string \<Rightarrow> nat \<Rightarrow> string" where
  "substring s i = drop i s"

definition is_digit :: "char \<Rightarrow> bool" where
  "is_digit c = (let n = (of_char c :: nat) in 48 \<le> n \<and> n \<le> 57)"

text \<open>\<open>[17][0-9]{8}$\<close>: the part of the pattern after the alternative.\<close>

definition subscriber_part :: "string \<Rightarrow> bool" where
  "subscriber_part s =
     (case s of
        [] \<Rightarrow> False
      | c # cs \<Rightarrow> (c = CHR ''1'' \<or> c = CHR ''7'') \<and> length cs = 8 \<and> list_all is_digit cs)"

text \<open>\<open>/^(254|0)[17][0-9]{8}$/.test(s)\<close>\<close>

definition kenyanPhoneRegex :: "string \<Rightarrow> bool" where
  "kenyanPhoneRegex s =
     ((startsWith s ''254'' \<and> subscriber_part (substring s 3))
      \<or> (startsWith s ''0'' \<and> subscriber_part (substring s 1)))"

definition validatePhoneNumber :: "string \<Rightarrow> bool" where
  "validatePhoneNumber phoneNumber =
     (let cleaned = strip_separators phoneNumber in kenyanPhoneRegex cleaned)"

definition formatPhoneNumber :: "string \<Rightarrow> error + string" where
  "formatPhoneNumber phoneNumber =
     (let cleaned = strip_separators phoneNumber;
          cleaned = (if startsWith cleaned ''07'' \<or> startsWith cleaned ''01''
                     then ''254'' @ substring cleaned 1 else cleaned)
      in if \<not> startsWith cleaned ''254''
         then Inl (Error ''Invalid phone number format'')
         else Inr cleaned)"

definition validateAmount :: "number \<Rightarrow> bool" where
  "validateAmount amount =
     (js_ge amount (Finite 1) \<and> js_le amount (Finite 70000) \<and> isFinite amount)"

section \<open>Platform, provider and clock\<close>

text \<open>
  The conversions the service takes from its runtime and libraries are parameters:
  \<open>base64\<close> is \<open>Buffer.from(s).toString("base64")\<close>, \<open>parseNumber\<close> is \<open>Number(s)\<close> on a
  string, \<open>showNumber\<close> is \<open>String(n)\<close> on a number, \<open>formatTimestamp\<close> is
  \<open>moment(t).format("YYYYMMDDHHmmss")\<close>. Every theorem below holds for all of them.
\<close>

record platform =
  base64 :: "string \<Rightarrow> string"
  parseNumber :: "string \<Rightarrow> number"
  showNumber :: "number \<Rightarrow> string"
  formatTimestamp :: "int \<Rightarrow> string"

text \<open>
  A platform for the closed examples; its conversions are placeholders. No example depends
  on what they return: the metadata of the examples carries numbers where a number is read
  and strings where a string is read, and the credentials and passwords are left as built.
\<close>

definition example_platform :: platform where
  "example_platform =
     \<lparr>base64 = (\<lambda>s. s), parseNumber = (\<lambda>s. NaN), showNumber = (\<lambda>n. []),
      formatTimestamp = (\<lambda>t. [])\<rparr>"

datatype jsvalue = Str string | Num number

text \<open>\<open>Number(v)\<close> and \<open>String(v)\<close> for \<open>v: string | number\<close>\<close>

definition Number_of :: "platform \<Rightarrow> jsvalue \<Rightarrow> number" where
  "Number_of pf v = (case v of Num n \<Rightarrow> n | Str s \<Rightarrow> parseNumber pf s)"

definition String_of :: "platform \<Rightarrow> jsvalue \<Rightarrow> string" where
  "String_of pf v = (case v of Str s \<Rightarrow> s | Num n \<Rightarrow> showNumber pf n)"

text \<open>
  Truthiness of a possibly absent string, and \<open>x || d\<close>: \<open>undefined\<close> and the empty string
  are falsy.
\<close>

definition truthy :: "string option \<Rightarrow> bool" where
  "truthy x = (case x of None \<Rightarrow> False | Some s \<Rightarrow> s \<noteq> [])"

definition or_else :: "string option \<Rightarrow> string \<Rightarrow> string" where
  "or_else x d = (case x of None \<Rightarrow> d | Some s \<Rightarrow> if s \<noteq> [] then s else d)"

section \<open>Types (types/mpesa.types)\<close>

datatype environment = Sandbox | Production

record MpesaConfig =
  consumerKey :: string
  consumerSecret :: string
  businessShortCode :: string
  passkey :: string
  environment :: environment
  callbackBaseUrl :: string

record STKPushRequest =
  BusinessShortCode :: string
  Password :: string
  Timestamp :: string
  TransactionType :: string
  Amount :: number
  PartyA :: string
  PartyB :: string
  PhoneNumber :: string
  CallBackURL :: string
  AccountReference :: string
  TransactionDesc :: string

text \<open>
  The members of the push acknowledgment are optional in the model, since the service
  itself provides for their absence (\<open>||\<close>); \<open>None\<close> is \<open>undefined\<close>.
\<close>

record STKPushResponse =
  push_MerchantRequestID :: "string option"
  push_CheckoutRequestID :: "string option"
  ResponseCode :: "string option"
  ResponseDescription :: "string option"
  CustomerMessage :: "string option"

record metadata_item =
  Name :: string
  Value :: jsvalue

record CallbackMetadata =
  Item :: "metadata_item list option"

record stkCallback =
  MerchantRequestID :: string
  CheckoutRequestID :: string
  ResultCode :: int
  ResultDesc :: string
  CallbackMetadata :: "CallbackMetadata option"

text \<open>
  The envelope as it arrives in a request body: \<open>Body\<close> and \<open>stkCallback\<close> may be missing.
  An envelope of the declared shape has both.
\<close>

record callback_body =
  stkCallback :: "stkCallback option"

record STKPushCallback =
  Body :: "callback_body option"

datatype status = Pending | Success | Failed | Cancelled

record TransactionStatus =
  transactionId :: string
  status :: status
  amount :: number
  phoneNumber :: string
  mpesaReceiptNumber :: "string option"
  transactionDate :: "string option"
  errorMessage :: "string option"

record PaymentRequest =
  req_amount :: number
  req_phoneNumber :: string
  accountReference :: string
  transactionDesc :: string

record PaymentResponse =
  success :: bool
  pay_transactionId :: "string option"
  pay_checkoutRequestId :: "string option"
  message :: string
  customerMessage :: "string option"

record AccessTokenResponse =
  access_token :: "string option"
  expires_in :: "string option"

record QuerySTKResponse =
  q_ResponseCode :: string
  q_ResponseDescription :: string
  q_MerchantRequestID :: string
  q_CheckoutRequestID :: string
  q_ResultCode :: string
  q_ResultDesc :: string

record queryData =
  qd_BusinessShortCode :: string
  qd_Password :: string
  qd_Timestamp :: string
  qd_CheckoutRequestID :: string

section \<open>The service (services/mpesa.service)\<close>

text \<open>
  The provider answers each of the three calls the service makes through its HTTP client:
  \<open>Inl\<close> is a rejected promise (transport failure, timeout, a status outside 2xx), \<open>Inr\<close>
  the body of the response. The arguments are what the service sends: the
  \<open>Authorization\<close> header and, for the two posts, the body.
\<close>

record provider =
  oauth_generate :: "string \<Rightarrow> error + AccessTokenResponse"
  stkpush :: "STKPushRequest \<Rightarrow> string \<Rightarrow> error + STKPushResponse"
  stkpushquery :: "queryData \<Rightarrow> string \<Rightarrow> error + QuerySTKResponse"

datatype http_request =
  GetToken string string
| PostPush string STKPushRequest string
| PostQuery string queryData string

text \<open>
  The readings of the wall clock (milliseconds) one call of the service takes:
  \<open>new Date()\<close> at the validity check of the token, \<open>Date.now()\<close> when a new token is
  stored, \<open>moment()\<close> when the password is generated.
\<close>

record clock =
  at_check :: int
  at_store :: int
  at_sign :: int

text \<open>
  The object: its token cache and configuration, and \<open>sent\<close>, the requests it has issued
  so far in order (the traffic of its HTTP client, kept to count the calls).
\<close>

record MpesaService =
  accessToken :: string
  tokenExpiry :: int
  config :: MpesaConfig
  sent :: "http_request list"

definition issue :: "http_request \<Rightarrow> MpesaService \<Rightarrow> MpesaService" where
  "issue r svc = svc\<lparr>sent := sent svc @ [r]\<rparr>"

text \<open>Lines 91 to 93: the credentials of the token request.\<close>

definition credentials :: "platform \<Rightarrow> MpesaService \<Rightarrow> string" where
  "credentials pf svc =
     base64 pf (consumerKey (config svc) @ '':'' @ consumerSecret (config svc))"

definition getAccessToken ::
  "platform \<Rightarrow> provider \<Rightarrow> clock \<Rightarrow> MpesaService \<Rightarrow> (error + string) \<times> MpesaService" where
  "getAccessToken pf net clk svc =
     (if accessToken svc \<noteq> [] \<and> tokenExpiry svc > at_check clk
      then (Inr (accessToken svc), svc)
      else
        let auth = ''Basic '' @ credentials pf svc;
            svc = issue (GetToken ''/oauth/v1/generate?grant_type=client_credentials'' auth) svc
        in case oauth_generate net auth of
             Inl e \<Rightarrow> (Inl (Wrapped ''Authentication failed'' e), svc)
           | Inr data \<Rightarrow>
               if truthy (access_token data)
               then
                 let svc = svc\<lparr>accessToken := the (access_token data)\<rparr>;
                     svc = svc\<lparr>tokenExpiry := at_store clk + 55 * 60 * 1000\<rparr>
                 in (Inr (accessToken svc), svc)
               else
                 (Inl (Wrapped ''Authentication failed''
                        (Error ''Failed to obtain access token'')), svc))"

definition generatePassword :: "platform \<Rightarrow> clock \<Rightarrow> MpesaService \<Rightarrow> string \<times> string" where
  "generatePassword pf clk svc =
     (let timestamp = formatTimestamp pf (at_sign clk);
          password =
            base64 pf (businessShortCode (config svc) @ passkey (config svc) @ timestamp)
      in (password, timestamp))"

text \<open>Lines 177 to 204 of \<open>initiateSTKPush\<close>: the acknowledgment mapped to the result.\<close>

definition push_result :: "STKPushResponse \<Rightarrow> PaymentResponse" where
  "push_result responseData =
     (if ResponseCode responseData = Some ''0''
      then \<lparr>success = True,
            pay_transactionId = push_MerchantRequestID responseData,
            pay_checkoutRequestId = push_CheckoutRequestID responseData,
            message = ''Payment request sent successfully'',
            customerMessage = CustomerMessage responseData\<rparr>
      else \<lparr>success = False,
            pay_transactionId = Some (or_else (push_MerchantRequestID responseData) []),
            pay_checkoutRequestId = Some (or_else (push_CheckoutRequestID responseData) []),
            message = or_else (ResponseDescription responseData) ''Payment request failed'',
            customerMessage = None\<rparr>)"

text \<open>Lines 144 to 158 of \<open>initiateSTKPush\<close>: the body of the push request.\<close>

definition stkPushData :: "platform \<Rightarrow> clock \<Rightarrow> PaymentRequest \<Rightarrow> MpesaService \<Rightarrow> STKPushRequest" where
  "stkPushData pf clk paymentRequest svc =
     (let (password, timestamp) = generatePassword pf clk svc
      in \<lparr>BusinessShortCode = businessShortCode (config svc),
          Password = password,
          Timestamp = timestamp,
          TransactionType = ''CustomerPayBillOnline'',
          Amount = req_amount paymentRequest,
          PartyA = req_phoneNumber paymentRequest,
          PartyB = businessShortCode (config svc),
          PhoneNumber = req_phoneNumber paymentRequest,
          CallBackURL = callbackBaseUrl (config svc) @ ''/stk-callback'',
          AccountReference = accountReference paymentRequest,
          TransactionDesc = transactionDesc paymentRequest\<rparr>)"

definition initiateSTKPush ::
  "platform \<Rightarrow> provider \<Rightarrow> clock \<Rightarrow> PaymentRequest \<Rightarrow> MpesaService
     \<Rightarrow> (error + PaymentResponse) \<times> MpesaService" where
  "initiateSTKPush pf net clk paymentRequest svc =
     (case getAccessToken pf net clk svc of
        (Inl e, svc) \<Rightarrow> (Inl (Wrapped ''Payment initiation failed'' e), svc)
      | (Inr token, svc) \<Rightarrow>
          let body = stkPushData pf clk paymentRequest svc;
              auth = ''Bearer '' @ token;
              svc = issue (PostPush ''/mpesa/stkpush/v1/processrequest'' body auth) svc
          in case stkpush net body auth of
               Inl e \<Rightarrow> (Inl (Wrapped ''Payment initiation failed'' e), svc)
             | Inr responseData \<Rightarrow> (Inr (push_result responseData), svc))"

text \<open>Lines 239 to 258 of \<open>querySTKPushStatus\<close>: the query response mapped to the result.\<close>

definition query_result :: "QuerySTKResponse \<Rightarrow> TransactionStatus" where
  "query_result responseData =
     (let status = Pending;
          status =
            (if q_ResultCode responseData = ''0'' then Success
             else if q_ResultCode responseData = ''1032'' then Cancelled
             else if q_ResultCode responseData = ''1'' then Failed
             else status)
      in \<lparr>transactionId = q_MerchantRequestID responseData,
          status = status,
          amount = Finite 0,
          phoneNumber = [],
          mpesaReceiptNumber = None,
          transactionDate = None,
          errorMessage = (if status \<noteq> Success then Some (q_ResultDesc responseData) else None)\<rparr>)"

definition querySTKPushStatus ::
  "platform \<Rightarrow> provider \<Rightarrow> clock \<Rightarrow> string \<Rightarrow> MpesaService
     \<Rightarrow> (error + TransactionStatus) \<times> MpesaService" where
  "querySTKPushStatus pf net clk checkoutRequestId svc =
     (case getAccessToken pf net clk svc of
        (Inl e, svc) \<Rightarrow> (Inl (Wrapped ''Status query failed'' e), svc)
      | (Inr token, svc) \<Rightarrow>
          let (password, timestamp) = generatePassword pf clk svc;
              queryData =
                \<lparr>qd_BusinessShortCode = businessShortCode (config svc),
                 qd_Password = password,
                 qd_Timestamp = timestamp,
                 qd_CheckoutRequestID = checkoutRequestId\<rparr>;
              auth = ''Bearer '' @ token;
              svc = issue (PostQuery ''/mpesa/stkpushquery/v1/query'' queryData auth) svc
          in case stkpushquery net queryData auth of
               Inl e \<Rightarrow> (Inl (Wrapped ''Status query failed'' e), svc)
             | Inr responseData \<Rightarrow> (Inr (query_result responseData), svc))"

text \<open>The local variables the callback loop assigns.\<close>

record extracted =
  var_amount :: number
  var_phoneNumber :: string
  var_mpesaReceiptNumber :: string
  var_transactionDate :: string

text \<open>The \<open>switch\<close> on the name of one item.\<close>

definition extract_item :: "platform \<Rightarrow> metadata_item \<Rightarrow> extracted \<Rightarrow> extracted" where
  "extract_item pf item vars =
     (if Name item = ''Amount'' then vars\<lparr>var_amount := Number_of pf (Value item)\<rparr>
      else if Name item = ''PhoneNumber''
        then vars\<lparr>var_phoneNumber := String_of pf (Value item)\<rparr>
      else if Name item = ''MpesaReceiptNumber''
        then vars\<lparr>var_mpesaReceiptNumber := String_of pf (Value item)\<rparr>
      else if Name item = ''TransactionDate''
        then vars\<lparr>var_transactionDate := String_of pf (Value item)\<rparr>
      else vars)"

text \<open>The \<open>for ... of\<close> loop over the items, in order.\<close>

fun extract_items :: "platform \<Rightarrow> metadata_item list \<Rightarrow> extracted \<Rightarrow> extracted" where
  "extract_items pf [] vars = vars"
| "extract_items pf (item # items) vars = extract_items pf items (extract_item pf item vars)"

text \<open>Lines 278 to 319 of \<open>processSTKCallback\<close>, on the callback inside the envelope.\<close>

definition callback_result :: "platform \<Rightarrow> stkCallback \<Rightarrow> TransactionStatus" where
  "callback_result pf callback =
     (let vars = \<lparr>var_amount = Finite 0, var_phoneNumber = [],
                  var_mpesaReceiptNumber = [], var_transactionDate = []\<rparr>;
          (status, vars) =
            (if ResultCode callback = 0
             then (Success,
                   (case CallbackMetadata callback of
                      None \<Rightarrow> vars
                    | Some metadata \<Rightarrow>
                        (case Item metadata of
                           None \<Rightarrow> vars
                         | Some items \<Rightarrow> extract_items pf items vars)))
             else if ResultCode callback = 1032 then (Cancelled, vars)
             else (Failed, vars))
      in \<lparr>transactionId = MerchantRequestID callback,
          status = status,
          amount = var_amount vars,
          phoneNumber = var_phoneNumber vars,
          mpesaReceiptNumber =
            (if status = Success then Some (var_mpesaReceiptNumber vars) else None),
          transactionDate =
            (if status = Success then Some (var_transactionDate vars) else None),
          errorMessage = (if status \<noteq> Success then Some (ResultDesc callback) else None)\<rparr>)"

text \<open>
  Reading \<open>callbackData.Body.stkCallback\<close> and then a member of the callback raises a
  \<open>TypeError\<close> when \<open>Body\<close> or \<open>stkCallback\<close> is missing; the \<open>catch\<close> re-throws it.
\<close>

definition processSTKCallback :: "platform \<Rightarrow> STKPushCallback \<Rightarrow> error + TransactionStatus" where
  "processSTKCallback pf callbackData =
     (case Body callbackData of
        None \<Rightarrow> Inl (Wrapped ''Callback processing failed'' (TypeError ''stkCallback''))
      | Some body \<Rightarrow>
          (case stkCallback body of
             None \<Rightarrow>
               Inl (Wrapped ''Callback processing failed'' (TypeError ''MerchantRequestID''))
           | Some callback \<Rightarrow> Inr (callback_result pf callback)))"

section \<open>The callback endpoint (controllers/payment.controller)\<close>

record acknowledgment =
  http_status :: nat
  ack_ResultCode :: int
  ack_ResultDesc :: string

definition handleSTKCallback :: "platform \<Rightarrow> STKPushCallback \<Rightarrow> acknowledgment" where
  "handleSTKCallback pf callbackData =
     (case processSTKCallback pf callbackData of
        Inr transactionStatus \<Rightarrow>
          \<lparr>http_status = 200, ack_ResultCode = 0, ack_ResultDesc = ''Accepted''\<rparr>
      | Inl e \<Rightarrow> \<lparr>http_status = 200, ack_ResultCode = 1, ack_ResultDesc = ''Failed''\<rparr>)"

section \<open>Auxiliary notions for the statements\<close>

text \<open>
  The decimal text of a result code, as the query response carries the code that the
  callback carries as a number.
\<close>

definition digit_char :: "nat \<Rightarrow> char" where
  "digit_char d = char_of (48 + d)"

fun dec_of_nat :: "nat \<Rightarrow> string" where
  "dec_of_nat n =
     (if n < 10 then [digit_char n] else dec_of_nat (n div 10) @ [digit_char (n mod 10)])"

declare dec_of_nat.simps [simp del]

definition decimal :: "int \<Rightarrow> string" where
  "decimal c = (if c < 0 then CHR ''-'' # dec_of_nat (nat (- c)) else dec_of_nat (nat c))"

definition digit_val :: "char \<Rightarrow> nat" where
  "digit_val c = of_char c - 48"

definition nat_of_dec :: "string \<Rightarrow> nat" where
  "nat_of_dec s = foldl (\<lambda>a c. 10 * a + digit_val c) 0 s"

text \<open>The value of the last item of a given name, if there is one.\<close>

fun last_named :: "string \<Rightarrow> metadata_item list \<Rightarrow> jsvalue option" where
  "last_named n [] = None"
| "last_named n (item # items) =
     (case last_named n items of
        Some v \<Rightarrow> Some v
      | None \<Rightarrow> if Name item = n then Some (Value item) else None)"

text \<open>The items of a callback: none when the metadata or its list is missing.\<close>

definition items_of :: "stkCallback \<Rightarrow> metadata_item list" where
  "items_of callback =
     (case CallbackMetadata callback of
        None \<Rightarrow> []
      | Some metadata \<Rightarrow> (case Item metadata of None \<Rightarrow> [] | Some items \<Rightarrow> items))"

text \<open>An envelope of the declared shape: \<open>Body\<close> and \<open>stkCallback\<close> are there.\<close>

definition envelope :: "stkCallback \<Rightarrow> STKPushCallback" where
  "envelope callback = \<lparr>Body = Some \<lparr>stkCallback = Some callback\<rparr>\<rparr>"

text \<open>The object as the constructor leaves it, built at time \<open>t\<close>.\<close>

definition new_service :: "MpesaConfig \<Rightarrow> int \<Rightarrow> MpesaService" where
  "new_service cfg t = \<lparr>accessToken = [], tokenExpiry = t, config = cfg, sent = []\<rparr>"

text \<open>Values for the closed examples: a configuration, and a provider with fixed answers.\<close>

definition example_config :: MpesaConfig where
  "example_config =
     \<lparr>consumerKey = ''key'', consumerSecret = ''secret'', businessShortCode = ''174379'',
      passkey = ''passkey'', environment = Sandbox,
      callbackBaseUrl = ''https://gateway.example/api/v1/payments/callback''\<rparr>"

definition fixed_provider ::
  "error + AccessTokenResponse \<Rightarrow> error + STKPushResponse \<Rightarrow> error + QuerySTKResponse
     \<Rightarrow> provider" where
  "fixed_provider a b c =
     \<lparr>oauth_generate = (\<lambda>auth. a), stkpush = (\<lambda>body auth. b),
      stkpushquery = (\<lambda>body auth. c)\<rparr>"

definition example_clock :: clock where
  "example_clock = \<lparr>at_check = 1000, at_store = 1200, at_sign = 1300\<rparr>"

definition example_request :: PaymentRequest where
  "example_request =
     \<lparr>req_amount = Finite 100, req_phoneNumber = ''254712345678'',
      accountReference = ''ORDER123'', transactionDesc = ''Payment''\<rparr>"

definition example_token :: AccessTokenResponse where
  "example_token = \<lparr>access_token = Some ''t0ken'', expires_in = Some ''3599''\<rparr>"

definition example_ack :: STKPushResponse where
  "example_ack =
     \<lparr>push_MerchantRequestID = Some ''29115-34620561-1'',
      push_CheckoutRequestID = Some ''ws_CO_191220191020363925'',
      ResponseCode = Some ''0'',
      ResponseDescription = Some ''Success. Request accepted for processing'',
      CustomerMessage = Some ''Success. Request accepted for processing''\<rparr>"

definition example_callback :: stkCallback where
  "example_callback =
     \<lparr>MerchantRequestID = ''29115-34620561-1'',
      CheckoutRequestID = ''ws_CO_191220191020363925'',
      ResultCode = 0,
      ResultDesc = ''The service request is processed successfully.'',
      CallbackMetadata = Some \<lparr>Item = Some
        [\<lparr>Name = ''Amount'', Value = Num (Finite 100)\<rparr>,
         \<lparr>Name = ''MpesaReceiptNumber'', Value = Str ''NLJ7RT61SV''\<rparr>,
         \<lparr>Name = ''TransactionDate'', Value = Str ''20191219102115''\<rparr>,
         \<lparr>Name = ''PhoneNumber'', Value = Str ''254708374149''\<rparr>]\<rparr>\<rparr>"

section \<open>Phone numbers and amounts\<close>

lemma strip_separators_idem: "strip_separators (strip_separators s) = strip_separators s"
  by (simp add: strip_separators_def)

lemma strip_separators_254: "strip_separators (''254'' @ t) = ''254'' @ strip_separators t"
  by (simp add: strip_separators_def is_space_def)

lemma strip_separators_drop:
  "strip_separators (drop n (strip_separators s)) = drop n (strip_separators s)"
  unfolding strip_separators_def by (rule filter_True) (auto dest: in_set_dropD)

lemma strip_separators_digits: "list_all is_digit s \<Longrightarrow> strip_separators s = s"
  unfolding strip_separators_def
  by (rule filter_True) (auto simp: list_all_iff is_digit_def is_space_def Let_def)

lemma subscriber_part_shape:
  assumes "subscriber_part t"
  obtains c cs where "t = c # cs" "c = CHR ''1'' \<or> c = CHR ''7''" "length cs = 8"
    "list_all is_digit cs"
  using assms by (auto simp: subscriber_part_def split: list.splits)

lemma subscriber_part_digits: "subscriber_part t \<Longrightarrow> list_all is_digit t"
  by (erule subscriber_part_shape) (auto simp: is_digit_def)

lemma formatPhoneNumber_local:
  assumes "subscriber_part t"
  shows "formatPhoneNumber (''0'' @ t) = Inr (''254'' @ t)"
proof -
  from assms obtain c cs where t: "t = c # cs" and c: "c = CHR ''1'' \<or> c = CHR ''7''"
    by (rule subscriber_part_shape)
  have "list_all is_digit (''0'' @ t)"
    using subscriber_part_digits [OF assms] by (simp add: is_digit_def)
  then have "strip_separators (''0'' @ t) = ''0'' @ t" by (rule strip_separators_digits)
  with c show ?thesis
    by (auto simp: formatPhoneNumber_def Let_def startsWith_def substring_def t)
qed

lemma formatPhoneNumber_international:
  assumes "subscriber_part t"
  shows "formatPhoneNumber (''254'' @ t) = Inr (''254'' @ t)"
proof -
  have "list_all is_digit (''254'' @ t)"
    using subscriber_part_digits [OF assms] by (simp add: is_digit_def)
  then have "strip_separators (''254'' @ t) = ''254'' @ t" by (rule strip_separators_digits)
  then show ?thesis
    by (simp add: formatPhoneNumber_def Let_def startsWith_def substring_def)
qed

lemma startsWith_split: "startsWith s p \<Longrightarrow> length p = n \<Longrightarrow> s = p @ substring s n"
  unfolding startsWith_def substring_def by (metis append_take_drop_id)

lemma formatPhoneNumber_local_match:
  assumes "startsWith s ''0''" and "subscriber_part (substring s 1)"
  shows "formatPhoneNumber s = Inr (''254'' @ substring s 1)"
proof -
  from assms(1) have s: "s = ''0'' @ substring s 1"
    by (intro startsWith_split) simp_all
  have "formatPhoneNumber (''0'' @ substring s 1) = Inr (''254'' @ substring s 1)"
    using assms(2) by (rule formatPhoneNumber_local)
  with s show ?thesis by metis
qed

lemma formatPhoneNumber_international_match:
  assumes "startsWith s ''254''" and "subscriber_part (substring s 3)"
  shows "formatPhoneNumber s = Inr s"
proof -
  from assms(1) have s: "s = ''254'' @ substring s 3"
    by (intro startsWith_split) simp_all
  have "formatPhoneNumber (''254'' @ substring s 3) = Inr (''254'' @ substring s 3)"
    using assms(2) by (rule formatPhoneNumber_international)
  with s show ?thesis by metis
qed

lemma validatePhoneNumber_formats:
  assumes "validatePhoneNumber s"
  shows "\<exists>t. formatPhoneNumber s = Inr t"
proof -
  let ?c = "strip_separators s"
  from assms have "kenyanPhoneRegex ?c" by (simp add: validatePhoneNumber_def)
  then have "\<exists>t. formatPhoneNumber ?c = Inr t"
    using formatPhoneNumber_local_match [of ?c] formatPhoneNumber_international_match [of ?c]
    by (auto simp: kenyanPhoneRegex_def)
  then show ?thesis by (simp add: formatPhoneNumber_def strip_separators_idem)
qed

text \<open>
  Claim C6, as stated, fails: \<open>formatPhoneNumber\<close> does not match the cleaned number against
  the two patterns, it only looks at its prefix. The number 254812345678 has a prefix
  digit 8, so it matches neither pattern (\<open>validatePhoneNumber\<close> rejects it), and
  \<open>formatPhoneNumber\<close> returns it unchanged instead of failing.
\<close>

theorem formatPhoneNumber_pattern_counterexample:
  "formatPhoneNumber ''254812345678'' = Inr ''254812345678''
   \<and> \<not> kenyanPhoneRegex (strip_separators ''254812345678'')
   \<and> \<not> validatePhoneNumber ''254812345678''"
  by (simp add: formatPhoneNumber_def validatePhoneNumber_def kenyanPhoneRegex_def
      startsWith_def substring_def subscriber_part_def strip_separators_def is_space_def Let_def)

text \<open>
  Claim C6, amended: \<open>formatPhoneNumber\<close> fails with the format error exactly when the
  number, stripped of whitespace, dashes and plus signs, starts with none of \<open>07\<close>, \<open>01\<close>
  and \<open>254\<close>. Every number that matches the local or the international pattern is
  therefore accepted, and \<open>formatPhoneNumber("123456789")\<close> fails.
\<close>

theorem formatPhoneNumber_fails_iff:
  "(\<exists>e. formatPhoneNumber s = Inl e)
     = (\<not> startsWith (strip_separators s) ''07'' \<and> \<not> startsWith (strip_separators s) ''01''
        \<and> \<not> startsWith (strip_separators s) ''254'')
   \<and> (formatPhoneNumber s = Inl (Error ''Invalid phone number format'')
        \<or> (\<exists>t. formatPhoneNumber s = Inr t))
   \<and> (validatePhoneNumber s \<longrightarrow> (\<exists>t. formatPhoneNumber s = Inr t))
   \<and> formatPhoneNumber ''123456789'' = Inl (Error ''Invalid phone number format'')"
proof (intro conjI)
  show "(\<exists>e. formatPhoneNumber s = Inl e)
     = (\<not> startsWith (strip_separators s) ''07'' \<and> \<not> startsWith (strip_separators s) ''01''
        \<and> \<not> startsWith (strip_separators s) ''254'')"
    by (auto simp: formatPhoneNumber_def Let_def startsWith_def)
  show "formatPhoneNumber s = Inl (Error ''Invalid phone number format'')
        \<or> (\<exists>t. formatPhoneNumber s = Inr t)"
    by (simp add: formatPhoneNumber_def Let_def)
  show "validatePhoneNumber s \<longrightarrow> (\<exists>t. formatPhoneNumber s = Inr t)"
    by (simp add: validatePhoneNumber_formats)
  show "formatPhoneNumber ''123456789'' = Inl (Error ''Invalid phone number format'')"
    by (simp add: formatPhoneNumber_def Let_def startsWith_def strip_separators_def
        is_space_def)
qed

theorem formatPhoneNumber_fails_iff_witness:
  "validatePhoneNumber ''0712345678'' \<and> (\<exists>t. formatPhoneNumber ''0712345678'' = Inr t)"
  using formatPhoneNumber_fails_iff [of "''0712345678''"]
  by (simp add: validatePhoneNumber_def kenyanPhoneRegex_def startsWith_def substring_def
      subscriber_part_def is_digit_def strip_separators_def is_space_def)

text \<open>
  Claim C7: a number of the local form (\<open>0\<close>, then 1 or 7, then eight digits) is returned as
  \<open>254\<close> followed by its nine trailing digits, and a number of the international form
  (\<open>254\<close>, then 1 or 7, then eight digits) is returned unchanged.
\<close>

theorem formatPhoneNumber_valid_numbers:
  "(startsWith s ''0'' \<and> subscriber_part (substring s 1) \<longrightarrow>
      formatPhoneNumber s = Inr (''254'' @ substring s 1) \<and> length (substring s 1) = 9)
   \<and> (startsWith s ''254'' \<and> subscriber_part (substring s 3) \<longrightarrow>
      formatPhoneNumber s = Inr s)"
proof (intro conjI impI)
  assume h: "startsWith s ''0'' \<and> subscriber_part (substring s 1)"
  then show "formatPhoneNumber s = Inr (''254'' @ substring s 1)"
    by (simp add: formatPhoneNumber_local_match)
  from h show "length (substring s 1) = 9"
    by (auto elim: subscriber_part_shape)
next
  assume "startsWith s ''254'' \<and> subscriber_part (substring s 3)"
  then show "formatPhoneNumber s = Inr s"
    by (simp add: formatPhoneNumber_international_match)
qed

theorem formatPhoneNumber_valid_numbers_witness:
  "formatPhoneNumber ''0712345678'' = Inr ''254712345678''
   \<and> formatPhoneNumber ''254112345678'' = Inr ''254112345678''"
  using formatPhoneNumber_valid_numbers [of "''0712345678''"]
    formatPhoneNumber_valid_numbers [of "''254112345678''"]
  by (simp add: startsWith_def substring_def subscriber_part_def is_digit_def)

text \<open>
  Claim C8: \<open>validateAmount\<close> holds exactly of the finite numbers from 1 to 70000, bounds
  included. It holds of 1 and of 70000; it fails at 70000.01, at 0, at \<open>NaN\<close> and at
  both infinities.
\<close>

theorem validateAmount_range:
  "validateAmount x = (\<exists>r. x = Finite r \<and> 1 \<le> r \<and> r \<le> 70000)
   \<and> validateAmount (Finite 1) \<and> validateAmount (Finite 70000)
   \<and> \<not> validateAmount (Finite (7000001 / 100)) \<and> \<not> validateAmount (Finite 0)
   \<and> \<not> validateAmount NaN \<and> \<not> validateAmount PosInfinity \<and> \<not> validateAmount NegInfinity"
proof -
  have "validateAmount x = (\<exists>r. x = Finite r \<and> 1 \<le> r \<and> r \<le> 70000)"
    by (cases x) (simp_all add: validateAmount_def js_ge_def)
  then show ?thesis by (simp add: validateAmount_def js_ge_def)
qed

text \<open>
  Claim C10: whenever \<open>formatPhoneNumber\<close> succeeds, its result starts with \<open>254\<close>, and
  formatting the result again succeeds and returns it unchanged.
\<close>

theorem formatPhoneNumber_idempotent:
  assumes "formatPhoneNumber s = Inr t"
  shows "startsWith t ''254'' \<and> formatPhoneNumber t = Inr t"
proof -
  let ?c = "strip_separators s"
  show ?thesis
  proof (cases "startsWith ?c ''07'' \<or> startsWith ?c ''01''")
    case True
    with assms have t: "t = ''254'' @ drop 1 ?c"
      by (auto simp: formatPhoneNumber_def Let_def substring_def split: if_splits)
    have "strip_separators t = t"
      unfolding t strip_separators_254 by (simp add: strip_separators_drop)
    then show ?thesis
      by (simp add: formatPhoneNumber_def Let_def startsWith_def) (simp add: t)
  next
    case False
    with assms have t: "t = ?c" and p: "startsWith ?c ''254''"
      by (auto simp: formatPhoneNumber_def Let_def split: if_splits)
    have "strip_separators t = t" by (simp add: t strip_separators_idem)
    with p False show ?thesis
      by (simp add: formatPhoneNumber_def Let_def t)
  qed
qed

theorem formatPhoneNumber_idempotent_witness:
  "formatPhoneNumber ''+254 712-345 678'' = Inr ''254712345678''
   \<and> startsWith ''254712345678'' ''254''
   \<and> formatPhoneNumber ''254712345678'' = Inr ''254712345678''"
proof -
  have f: "formatPhoneNumber ''+254 712-345 678'' = Inr ''254712345678''"
    by (simp add: formatPhoneNumber_def Let_def startsWith_def strip_separators_def
        is_space_def)
  from formatPhoneNumber_idempotent [OF f] f show ?thesis by simp
qed

section \<open>The callback path\<close>

lemma extract_items_amount:
  "var_amount (extract_items pf items vars)
     = (case last_named ''Amount'' items of
          None \<Rightarrow> var_amount vars | Some v \<Rightarrow> Number_of pf v)"
  by (induction items arbitrary: vars) (auto simp: extract_item_def split: option.splits)

lemma extract_items_phoneNumber:
  "var_phoneNumber (extract_items pf items vars)
     = (case last_named ''PhoneNumber'' items of
          None \<Rightarrow> var_phoneNumber vars | Some v \<Rightarrow> String_of pf v)"
  by (induction items arbitrary: vars) (auto simp: extract_item_def split: option.splits)

lemma extract_items_mpesaReceiptNumber:
  "var_mpesaReceiptNumber (extract_items pf items vars)
     = (case last_named ''MpesaReceiptNumber'' items of
          None \<Rightarrow> var_mpesaReceiptNumber vars | Some v \<Rightarrow> String_of pf v)"
  by (induction items arbitrary: vars) (auto simp: extract_item_def split: option.splits)

lemma extract_items_transactionDate:
  "var_transactionDate (extract_items pf items vars)
     = (case last_named ''TransactionDate'' items of
          None \<Rightarrow> var_transactionDate vars | Some v \<Rightarrow> String_of pf v)"
  by (induction items arbitrary: vars) (auto simp: extract_item_def split: option.splits)

lemmas extract_items_fields =
  extract_items_amount extract_items_phoneNumber extract_items_mpesaReceiptNumber
  extract_items_transactionDate

lemma last_named_None: "(last_named n items = None) = (\<forall>item \<in> set items. Name item \<noteq> n)"
  by (induction items) (auto split: option.splits)

lemma processSTKCallback_envelope:
  "processSTKCallback pf (envelope cb) = Inr (callback_result pf cb)"
  by (simp add: processSTKCallback_def envelope_def)

text \<open>Without \<open>Body\<close>, or without \<open>stkCallback\<close>, the function throws.\<close>

lemma processSTKCallback_broken_envelope:
  "processSTKCallback pf \<lparr>Body = None\<rparr>
     = Inl (Wrapped ''Callback processing failed'' (TypeError ''stkCallback''))"
  "processSTKCallback pf \<lparr>Body = Some \<lparr>stkCallback = None\<rparr>\<rparr>
     = Inl (Wrapped ''Callback processing failed'' (TypeError ''MerchantRequestID''))"
  by (simp_all add: processSTKCallback_def)

lemma callback_vars:
  "(case CallbackMetadata cb of
      None \<Rightarrow> vars
    | Some metadata \<Rightarrow>
        (case Item metadata of None \<Rightarrow> vars | Some items \<Rightarrow> extract_items pf items vars))
   = extract_items pf (items_of cb) vars"
  by (simp add: items_of_def split: option.splits)

lemma callback_result_success:
  assumes "ResultCode cb = 0"
  shows "callback_result pf cb =
     \<lparr>transactionId = MerchantRequestID cb,
      status = Success,
      amount = (case last_named ''Amount'' (items_of cb) of
                  None \<Rightarrow> Finite 0 | Some v \<Rightarrow> Number_of pf v),
      phoneNumber = (case last_named ''PhoneNumber'' (items_of cb) of
                  None \<Rightarrow> [] | Some v \<Rightarrow> String_of pf v),
      mpesaReceiptNumber = Some (case last_named ''MpesaReceiptNumber'' (items_of cb) of
                  None \<Rightarrow> [] | Some v \<Rightarrow> String_of pf v),
      transactionDate = Some (case last_named ''TransactionDate'' (items_of cb) of
                  None \<Rightarrow> [] | Some v \<Rightarrow> String_of pf v),
      errorMessage = None\<rparr>"
  using assms
  by (simp add: callback_result_def Let_def callback_vars extract_items_fields
      split: option.splits)

lemma callback_result_other:
  assumes "ResultCode cb \<noteq> 0"
  shows "callback_result pf cb =
     \<lparr>transactionId = MerchantRequestID cb,
      status = (if ResultCode cb = 1032 then Cancelled else Failed),
      amount = Finite 0, phoneNumber = [], mpesaReceiptNumber = None, transactionDate = None,
      errorMessage = Some (ResultDesc cb)\<rparr>"
  using assms by (simp add: callback_result_def Let_def)

text \<open>
  Claim C3: on an envelope of the declared shape, result code 0 gives status \<open>success\<close>
  with amount, phone number, receipt number and transaction date taken from the metadata
  items of those names (the last one of each name; the zero value when there is none);
  result code 1032 gives \<open>cancelled\<close>; every other non-zero code gives \<open>failed\<close>, with the
  \<open>ResultDesc\<close> of the payload as error message.
\<close>

theorem processSTKCallback_mapping:
  "(ResultCode cb = 0 \<longrightarrow>
      processSTKCallback pf (envelope cb) = Inr
        \<lparr>transactionId = MerchantRequestID cb,
         status = Success,
         amount = (case last_named ''Amount'' (items_of cb) of
                     None \<Rightarrow> Finite 0 | Some v \<Rightarrow> Number_of pf v),
         phoneNumber = (case last_named ''PhoneNumber'' (items_of cb) of
                     None \<Rightarrow> [] | Some v \<Rightarrow> String_of pf v),
         mpesaReceiptNumber = Some (case last_named ''MpesaReceiptNumber'' (items_of cb) of
                     None \<Rightarrow> [] | Some v \<Rightarrow> String_of pf v),
         transactionDate = Some (case last_named ''TransactionDate'' (items_of cb) of
                     None \<Rightarrow> [] | Some v \<Rightarrow> String_of pf v),
         errorMessage = None\<rparr>)
   \<and> (ResultCode cb = 1032 \<longrightarrow>
      processSTKCallback pf (envelope cb) = Inr
        \<lparr>transactionId = MerchantRequestID cb, status = Cancelled,
         amount = Finite 0, phoneNumber = [], mpesaReceiptNumber = None,
         transactionDate = None, errorMessage = Some (ResultDesc cb)\<rparr>)
   \<and> (ResultCode cb \<noteq> 0 \<and> ResultCode cb \<noteq> 1032 \<longrightarrow>
      processSTKCallback pf (envelope cb) = Inr
        \<lparr>transactionId = MerchantRequestID cb, status = Failed,
         amount = Finite 0, phoneNumber = [], mpesaReceiptNumber = None,
         transactionDate = None, errorMessage = Some (ResultDesc cb)\<rparr>)"
  by (simp add: processSTKCallback_envelope callback_result_success callback_result_other)

theorem processSTKCallback_mapping_witness:
  "processSTKCallback example_platform (envelope example_callback) = Inr
     \<lparr>transactionId = ''29115-34620561-1'', status = Success, amount = Finite 100,
      phoneNumber = ''254708374149'', mpesaReceiptNumber = Some ''NLJ7RT61SV'',
      transactionDate = Some ''20191219102115'', errorMessage = None\<rparr>
   \<and> processSTKCallback example_platform
       (envelope (example_callback\<lparr>ResultCode := 1032,
          ResultDesc := ''Request cancelled by user'', CallbackMetadata := None\<rparr>)) = Inr
     \<lparr>transactionId = ''29115-34620561-1'', status = Cancelled, amount = Finite 0,
      phoneNumber = [], mpesaReceiptNumber = None, transactionDate = None,
      errorMessage = Some ''Request cancelled by user''\<rparr>
   \<and> processSTKCallback example_platform
       (envelope (example_callback\<lparr>ResultCode := 1,
          ResultDesc := ''The balance is insufficient for the transaction'',
          CallbackMetadata := None\<rparr>)) = Inr
     \<lparr>transactionId = ''29115-34620561-1'', status = Failed, amount = Finite 0,
      phoneNumber = [], mpesaReceiptNumber = None, transactionDate = None,
      errorMessage = Some ''The balance is insufficient for the transaction''\<rparr>"
  using processSTKCallback_mapping [of example_callback example_platform]
    processSTKCallback_mapping
      [of "example_callback\<lparr>ResultCode := 1032,
          ResultDesc := ''Request cancelled by user'', CallbackMetadata := None\<rparr>"
        example_platform]
    processSTKCallback_mapping
      [of "example_callback\<lparr>ResultCode := 1,
          ResultDesc := ''The balance is insufficient for the transaction'',
          CallbackMetadata := None\<rparr>"
        example_platform]
  by (simp add: example_callback_def items_of_def Number_of_def String_of_def)

text \<open>
  Claim C4: on every envelope of the declared shape, with or without metadata and
  whatever items the metadata holds, \<open>processSTKCallback\<close> returns a transaction status
  and does not throw, so that the endpoint acknowledges with \<open>Accepted\<close>. A field whose
  item is missing has its zero value: amount 0 and an empty phone number, and on success an
  empty receipt number and transaction date (both undefined when the status is not
  success).
\<close>

theorem processSTKCallback_total:
  "(\<exists>ts. processSTKCallback pf (envelope cb) = Inr ts
       \<and> ((\<forall>item \<in> set (items_of cb). Name item \<noteq> ''Amount'') \<longrightarrow> amount ts = Finite 0)
       \<and> ((\<forall>item \<in> set (items_of cb). Name item \<noteq> ''PhoneNumber'') \<longrightarrow> phoneNumber ts = [])
       \<and> ((\<forall>item \<in> set (items_of cb). Name item \<noteq> ''MpesaReceiptNumber'') \<longrightarrow>
            mpesaReceiptNumber ts = (if ResultCode cb = 0 then Some [] else None))
       \<and> ((\<forall>item \<in> set (items_of cb). Name item \<noteq> ''TransactionDate'') \<longrightarrow>
            transactionDate ts = (if ResultCode cb = 0 then Some [] else None)))
   \<and> handleSTKCallback pf (envelope cb)
       = \<lparr>http_status = 200, ack_ResultCode = 0, ack_ResultDesc = ''Accepted''\<rparr>"
proof (cases "ResultCode cb = 0")
  case True
  then show ?thesis
    by (simp add: handleSTKCallback_def processSTKCallback_envelope callback_result_success
        last_named_None [symmetric])
next
  case False
  then show ?thesis
    by (simp add: handleSTKCallback_def processSTKCallback_envelope callback_result_other)
qed

theorem processSTKCallback_total_witness:
  "(\<exists>ts. processSTKCallback example_platform
            (envelope (example_callback\<lparr>CallbackMetadata := None\<rparr>)) = Inr ts
       \<and> amount ts = Finite 0 \<and> phoneNumber ts = []
       \<and> mpesaReceiptNumber ts = Some [] \<and> transactionDate ts = Some [])
   \<and> (\<exists>ts. processSTKCallback example_platform
            (envelope (example_callback\<lparr>CallbackMetadata := Some \<lparr>Item = Some
               [\<lparr>Name = ''Amount'', Value = Num (Finite 100)\<rparr>]\<rparr>\<rparr>)) = Inr ts
       \<and> amount ts = Finite 100 \<and> phoneNumber ts = []
       \<and> mpesaReceiptNumber ts = Some [] \<and> transactionDate ts = Some [])"
proof
  show "\<exists>ts. processSTKCallback example_platform
            (envelope (example_callback\<lparr>CallbackMetadata := None\<rparr>)) = Inr ts
       \<and> amount ts = Finite 0 \<and> phoneNumber ts = []
       \<and> mpesaReceiptNumber ts = Some [] \<and> transactionDate ts = Some []"
    using processSTKCallback_total
      [of example_platform "example_callback\<lparr>CallbackMetadata := None\<rparr>"]
    by (auto simp: example_callback_def items_of_def)
  show "\<exists>ts. processSTKCallback example_platform
            (envelope (example_callback\<lparr>CallbackMetadata := Some \<lparr>Item = Some
               [\<lparr>Name = ''Amount'', Value = Num (Finite 100)\<rparr>]\<rparr>\<rparr>)) = Inr ts
       \<and> amount ts = Finite 100 \<and> phoneNumber ts = []
       \<and> mpesaReceiptNumber ts = Some [] \<and> transactionDate ts = Some []"
    using processSTKCallback_total
      [of example_platform "example_callback\<lparr>CallbackMetadata := Some \<lparr>Item = Some
               [\<lparr>Name = ''Amount'', Value = Num (Finite 100)\<rparr>]\<rparr>\<rparr>"]
    by (auto simp: example_callback_def items_of_def processSTKCallback_def envelope_def
        callback_result_def extract_item_def Number_of_def Let_def)
qed

text \<open>
  Claim C9: on every envelope of the declared shape the status that \<open>processSTKCallback\<close>
  returns is never \<open>pending\<close>: it is \<open>success\<close>, \<open>failed\<close> or \<open>cancelled\<close>, and \<open>failed\<close> for
  every result code other than 0 and 1032.
\<close>

theorem processSTKCallback_terminal:
  "\<exists>ts. processSTKCallback pf (envelope cb) = Inr ts
       \<and> status ts \<noteq> Pending
       \<and> (status ts = Success \<or> status ts = Failed \<or> status ts = Cancelled)
       \<and> (ResultCode cb \<noteq> 0 \<and> ResultCode cb \<noteq> 1032 \<longrightarrow> status ts = Failed)"
  by (cases "ResultCode cb = 0")
     (simp_all add: processSTKCallback_envelope callback_result_success callback_result_other)

theorem processSTKCallback_terminal_witness:
  "\<exists>ts. processSTKCallback example_platform
           (envelope (example_callback\<lparr>ResultCode := 2001, CallbackMetadata := None\<rparr>)) = Inr ts
       \<and> status ts = Failed \<and> status ts \<noteq> Pending"
  using processSTKCallback_terminal
    [of example_platform "example_callback\<lparr>ResultCode := 2001, CallbackMetadata := None\<rparr>"]
  by auto

section \<open>The two status mappings\<close>

lemma of_char_digit_char: "d < 10 \<Longrightarrow> (of_char (digit_char d) :: nat) = 48 + d"
  by (simp add: digit_char_def)

lemma digit_val_digit_char: "d < 10 \<Longrightarrow> digit_val (digit_char d) = d"
  by (simp add: digit_val_def of_char_digit_char)

lemma digit_char_not_minus: "d < 10 \<Longrightarrow> digit_char d \<noteq> CHR ''-''"
proof
  assume d: "d < 10" and eq: "digit_char d = CHR ''-''"
  have "(of_char (digit_char d) :: nat) = of_char CHR ''-''" by (simp only: eq)
  with d show False by (simp add: of_char_digit_char)
qed

lemma nat_of_dec_snoc: "nat_of_dec (s @ [c]) = 10 * nat_of_dec s + digit_val c"
  by (simp add: nat_of_dec_def)

lemma nat_of_dec_single: "nat_of_dec [c] = digit_val c"
  by (simp add: nat_of_dec_def)

text \<open>Reading the decimal text of a number gives the number back.\<close>

lemma nat_of_dec_of_nat: "nat_of_dec (dec_of_nat n) = n"
proof (induction n rule: dec_of_nat.induct)
  case (1 n)
  show ?case
  proof (cases "n < 10")
    case True
    then show ?thesis
      by (subst dec_of_nat.simps) (simp add: nat_of_dec_single digit_val_digit_char)
  next
    case False
    with 1 have "nat_of_dec (dec_of_nat (n div 10)) = n div 10" by simp
    with False show ?thesis
      by (subst dec_of_nat.simps) (simp add: nat_of_dec_snoc digit_val_digit_char)
  qed
qed

lemma dec_of_nat_head: "\<exists>c cs. dec_of_nat n = c # cs \<and> c \<noteq> CHR ''-''"
proof (induction n rule: dec_of_nat.induct)
  case (1 n)
  show ?case
  proof (cases "n < 10")
    case True
    then have "dec_of_nat n = [digit_char n]" by (subst dec_of_nat.simps) simp
    with True show ?thesis by (simp add: digit_char_not_minus)
  next
    case False
    with 1 obtain c cs where h: "dec_of_nat (n div 10) = c # cs" "c \<noteq> CHR ''-''" by blast
    from False have "dec_of_nat n = dec_of_nat (n div 10) @ [digit_char (n mod 10)]"
      by (subst dec_of_nat.simps) simp
    with h show ?thesis by simp
  qed
qed

lemma decimal_nonneg_eq:
  assumes "0 \<le> k"
  shows "(decimal c = dec_of_nat (nat k)) = (c = k)"
proof
  assume eq: "decimal c = dec_of_nat (nat k)"
  obtain d ds where h: "dec_of_nat (nat k) = d # ds" "d \<noteq> CHR ''-''"
    using dec_of_nat_head by blast
  have nonneg: "0 \<le> c"
  proof (rule ccontr)
    assume "\<not> 0 \<le> c"
    then have "decimal c = CHR ''-'' # dec_of_nat (nat (- c))" by (simp add: decimal_def)
    with eq h show False by simp
  qed
  then have "dec_of_nat (nat c) = dec_of_nat (nat k)" using eq by (simp add: decimal_def)
  then have "nat c = nat k" by (metis nat_of_dec_of_nat)
  with nonneg assms show "c = k" by simp
next
  assume "c = k"
  with assms show "decimal c = dec_of_nat (nat k)" by (simp add: decimal_def)
qed

lemma dec_of_nat_0: "dec_of_nat 0 = ''0''"
  by code_simp

lemma dec_of_nat_1: "dec_of_nat (Suc 0) = ''1''"
  by code_simp

lemma dec_of_nat_1032: "dec_of_nat 1032 = ''1032''"
  by code_simp

lemma decimal_eq_0: "(decimal c = ''0'') = (c = 0)"
  using decimal_nonneg_eq [of 0 c] by (simp add: dec_of_nat_0)

lemma decimal_eq_1: "(decimal c = ''1'') = (c = 1)"
  using decimal_nonneg_eq [of 1 c] by (simp add: dec_of_nat_1)

lemma decimal_eq_1032: "(decimal c = ''1032'') = (c = 1032)"
  using decimal_nonneg_eq [of 1032 c] by (simp add: dec_of_nat_1032)

lemma querySTKPushStatus_answered:
  assumes "getAccessToken pf net clk svc = (Inr token, svc')"
    and "\<And>body. stkpushquery net body (''Bearer '' @ token) = Inr r"
  shows "fst (querySTKPushStatus pf net clk checkoutRequestId svc) = Inr (query_result r)"
  using assms by (simp add: querySTKPushStatus_def Let_def split: prod.splits)

text \<open>
  Claim C1, as stated, fails: the two paths do not agree on every result code. For code
  2001 the poll path leaves the status at its initial value \<open>pending\<close>, since it assigns
  \<open>failed\<close> for code 1 only, while the callback path gives \<open>failed\<close>.
\<close>

theorem status_mapping_counterexample:
  "decimal 2001 = ''2001''
   \<and> status (query_result
        \<lparr>q_ResponseCode = ''0'',
         q_ResponseDescription = ''The service request has been accepted successsfully'',
         q_MerchantRequestID = ''29115-34620561-1'',
         q_CheckoutRequestID = ''ws_CO_191220191020363925'',
         q_ResultCode = decimal 2001,
         q_ResultDesc = ''The initiator information is invalid.''\<rparr>) = Pending
   \<and> map_sum id status (processSTKCallback example_platform
        (envelope (example_callback\<lparr>ResultCode := 2001,
           ResultDesc := ''The initiator information is invalid.'',
           CallbackMetadata := None\<rparr>)))
       = Inr Failed"
proof -
  have d: "decimal 2001 = ''2001''" by code_simp
  show ?thesis
    by (simp add: d query_result_def processSTKCallback_def envelope_def callback_result_def)
qed

text \<open>
  Claim C1, amended: each path maps a result code to a status by a total function of the
  code alone. The callback path gives \<open>success\<close> for 0, \<open>cancelled\<close> for 1032 and \<open>failed\<close>
  for every other code. The poll path, which receives the code as decimal text, gives
  \<open>success\<close> for 0, \<open>cancelled\<close> for 1032, \<open>failed\<close> for 1 and \<open>pending\<close> for every other code.
  The two paths agree on the codes 0, 1032 and 1.
\<close>

theorem status_mapping_by_path:
  "processSTKCallback pf (envelope (cb\<lparr>ResultCode := c\<rparr>))
     = Inr (callback_result pf (cb\<lparr>ResultCode := c\<rparr>))
   \<and> status (callback_result pf (cb\<lparr>ResultCode := c\<rparr>))
     = (if c = 0 then Success else if c = 1032 then Cancelled else Failed)
   \<and> status (query_result (q\<lparr>q_ResultCode := decimal c\<rparr>))
     = (if c = 0 then Success else if c = 1032 then Cancelled
        else if c = 1 then Failed else Pending)
   \<and> ((status (query_result (q\<lparr>q_ResultCode := decimal c\<rparr>))
        = status (callback_result pf (cb\<lparr>ResultCode := c\<rparr>)))
      = (c = 0 \<or> c = 1032 \<or> c = 1))"
  by (simp add: callback_result_def query_result_def processSTKCallback_def envelope_def
      Let_def decimal_eq_0 decimal_eq_1 decimal_eq_1032)

section \<open>The token cache\<close>

lemma getAccessToken_cached:
  assumes "accessToken svc \<noteq> []" and "at_check clk < tokenExpiry svc"
  shows "getAccessToken pf net clk svc = (Inr (accessToken svc), svc)"
  using assms by (simp add: getAccessToken_def)

lemma getAccessToken_refresh:
  assumes "accessToken svc = [] \<or> tokenExpiry svc \<le> at_check clk"
  shows "getAccessToken pf net clk svc =
     (let auth = ''Basic '' @ credentials pf svc;
          svc1 = svc\<lparr>sent := sent svc @
                   [GetToken ''/oauth/v1/generate?grant_type=client_credentials'' auth]\<rparr>
      in case oauth_generate net auth of
           Inl e \<Rightarrow> (Inl (Wrapped ''Authentication failed'' e), svc1)
         | Inr data \<Rightarrow>
             if truthy (access_token data)
             then (Inr (the (access_token data)),
                   svc1\<lparr>accessToken := the (access_token data),
                        tokenExpiry := at_store clk + 3300000\<rparr>)
             else (Inl (Wrapped ''Authentication failed''
                         (Error ''Failed to obtain access token'')), svc1))"
  using assms
  by (auto simp: getAccessToken_def Let_def issue_def split: sum.splits)

text \<open>
  Claim C5: with a token in the cache and its recorded expiry still in the future,
  \<open>getAccessToken\<close> returns the cached token, leaves the state as it is and sends nothing.
  With no token, or with the expiry reached, it sends exactly one token request; when the
  response carries a token it stores it with an expiry 55 minutes after the time of
  storing, five minutes below one hour, and returns it; when the response carries no token
  (none, or an empty one) the call fails with the authentication error and the cache is
  unchanged, as it does when the request itself fails.
\<close>

theorem getAccessToken_cache:
  "(accessToken svc \<noteq> [] \<and> at_check clk < tokenExpiry svc \<longrightarrow>
      getAccessToken pf net clk svc = (Inr (accessToken svc), svc))
   \<and> (accessToken svc = [] \<or> tokenExpiry svc \<le> at_check clk \<longrightarrow>
        sent (snd (getAccessToken pf net clk svc))
          = sent svc @ [GetToken ''/oauth/v1/generate?grant_type=client_credentials''
                          (''Basic '' @ credentials pf svc)]
      \<and> (\<forall>data tok.
            oauth_generate net (''Basic '' @ credentials pf svc) = Inr data
              \<and> access_token data = Some tok \<and> tok \<noteq> [] \<longrightarrow>
            getAccessToken pf net clk svc =
              (Inr tok,
               svc\<lparr>accessToken := tok,
                   tokenExpiry := at_store clk + (60 * 60 * 1000 - 5 * 60 * 1000),
                   sent := sent svc @
                     [GetToken ''/oauth/v1/generate?grant_type=client_credentials''
                        (''Basic '' @ credentials pf svc)]\<rparr>))
      \<and> (\<forall>data.
            oauth_generate net (''Basic '' @ credentials pf svc) = Inr data
              \<and> (access_token data = None \<or> access_token data = Some []) \<longrightarrow>
            getAccessToken pf net clk svc =
              (Inl (Wrapped ''Authentication failed'' (Error ''Failed to obtain access token'')),
               svc\<lparr>sent := sent svc @
                     [GetToken ''/oauth/v1/generate?grant_type=client_credentials''
                        (''Basic '' @ credentials pf svc)]\<rparr>))
      \<and> (\<forall>e.
            oauth_generate net (''Basic '' @ credentials pf svc) = Inl e \<longrightarrow>
            getAccessToken pf net clk svc =
              (Inl (Wrapped ''Authentication failed'' e),
               svc\<lparr>sent := sent svc @
                     [GetToken ''/oauth/v1/generate?grant_type=client_credentials''
                        (''Basic '' @ credentials pf svc)]\<rparr>)))"
proof (intro conjI impI allI)
  assume "accessToken svc \<noteq> [] \<and> at_check clk < tokenExpiry svc"
  then show "getAccessToken pf net clk svc = (Inr (accessToken svc), svc)"
    by (simp add: getAccessToken_cached)
next
  assume h: "accessToken svc = [] \<or> tokenExpiry svc \<le> at_check clk"
  show "sent (snd (getAccessToken pf net clk svc))
          = sent svc @ [GetToken ''/oauth/v1/generate?grant_type=client_credentials''
                          (''Basic '' @ credentials pf svc)]"
    by (simp add: getAccessToken_refresh [OF h] Let_def split: sum.splits)
next
  fix data tok
  assume h: "accessToken svc = [] \<or> tokenExpiry svc \<le> at_check clk"
    and r: "oauth_generate net (''Basic '' @ credentials pf svc) = Inr data
              \<and> access_token data = Some tok \<and> tok \<noteq> []"
  then show "getAccessToken pf net clk svc =
              (Inr tok,
               svc\<lparr>accessToken := tok,
                   tokenExpiry := at_store clk + (60 * 60 * 1000 - 5 * 60 * 1000),
                   sent := sent svc @
                     [GetToken ''/oauth/v1/generate?grant_type=client_credentials''
                        (''Basic '' @ credentials pf svc)]\<rparr>)"
    by (simp add: getAccessToken_refresh [OF h] Let_def truthy_def)
next
  fix data
  assume h: "accessToken svc = [] \<or> tokenExpiry svc \<le> at_check clk"
    and r: "oauth_generate net (''Basic '' @ credentials pf svc) = Inr data
              \<and> (access_token data = None \<or> access_token data = Some [])"
  then have "\<not> truthy (access_token data)" by (auto simp: truthy_def)
  with r show "getAccessToken pf net clk svc =
              (Inl (Wrapped ''Authentication failed'' (Error ''Failed to obtain access token'')),
               svc\<lparr>sent := sent svc @
                     [GetToken ''/oauth/v1/generate?grant_type=client_credentials''
                        (''Basic '' @ credentials pf svc)]\<rparr>)"
    by (simp add: getAccessToken_refresh [OF h] Let_def)
next
  fix e
  assume h: "accessToken svc = [] \<or> tokenExpiry svc \<le> at_check clk"
    and r: "oauth_generate net (''Basic '' @ credentials pf svc) = Inl e"
  then show "getAccessToken pf net clk svc =
              (Inl (Wrapped ''Authentication failed'' e),
               svc\<lparr>sent := sent svc @
                     [GetToken ''/oauth/v1/generate?grant_type=client_credentials''
                        (''Basic '' @ credentials pf svc)]\<rparr>)"
    by (simp add: getAccessToken_refresh [OF h] Let_def)
qed

theorem getAccessToken_cache_witness:
  "getAccessToken example_platform
       (fixed_provider (Inl (Error ''unreachable'')) (Inr example_ack) (Inl (Error ''unused'')))
       example_clock
       ((new_service example_config 0)\<lparr>accessToken := ''cached'', tokenExpiry := 5000\<rparr>)
     = (Inr ''cached'',
        \<lparr>accessToken = ''cached'', tokenExpiry = 5000, config = example_config, sent = []\<rparr>)
   \<and> getAccessToken example_platform
       (fixed_provider (Inr example_token) (Inr example_ack) (Inl (Error ''unused'')))
       example_clock
       ((new_service example_config 0)\<lparr>accessToken := ''cached'', tokenExpiry := 1000\<rparr>)
     = (Inr ''t0ken'',
        \<lparr>accessToken = ''t0ken'', tokenExpiry = 3301200, config = example_config,
         sent = [GetToken ''/oauth/v1/generate?grant_type=client_credentials''
                   ''Basic key:secret'']\<rparr>)
   \<and> getAccessToken example_platform
       (fixed_provider (Inr \<lparr>access_token = None, expires_in = None\<rparr>) (Inr example_ack)
          (Inl (Error ''unused'')))
       example_clock (new_service example_config 0)
     = (Inl (Wrapped ''Authentication failed'' (Error ''Failed to obtain access token'')),
        \<lparr>accessToken = [], tokenExpiry = 0, config = example_config,
         sent = [GetToken ''/oauth/v1/generate?grant_type=client_credentials''
                   ''Basic key:secret'']\<rparr>)"
  using getAccessToken_cache
      [of "(new_service example_config 0)\<lparr>accessToken := ''cached'', tokenExpiry := 5000\<rparr>"
        example_clock example_platform
        "fixed_provider (Inl (Error ''unreachable'')) (Inr example_ack) (Inl (Error ''unused''))"]
    getAccessToken_cache
      [of "(new_service example_config 0)\<lparr>accessToken := ''cached'', tokenExpiry := 1000\<rparr>"
        example_clock example_platform
        "fixed_provider (Inr example_token) (Inr example_ack) (Inl (Error ''unused''))"]
    getAccessToken_cache
      [of "new_service example_config 0" example_clock example_platform
        "fixed_provider (Inr \<lparr>access_token = None, expires_in = None\<rparr>) (Inr example_ack)
          (Inl (Error ''unused''))"]
  by (simp add: new_service_def example_clock_def example_config_def example_platform_def
      example_token_def fixed_provider_def credentials_def)

section \<open>Initiating a payment\<close>

lemma initiateSTKPush_token_failed:
  assumes "fst (getAccessToken pf net clk svc) = Inl e"
  shows "fst (initiateSTKPush pf net clk req svc) = Inl (Wrapped ''Payment initiation failed'' e)"
  using assms by (cases "getAccessToken pf net clk svc") (simp add: initiateSTKPush_def)

lemma initiateSTKPush_token_ok:
  assumes "getAccessToken pf net clk svc = (Inr token, svc')"
  shows "fst (initiateSTKPush pf net clk req svc) =
     (case stkpush net (stkPushData pf clk req svc') (''Bearer '' @ token) of
        Inl e \<Rightarrow> Inl (Wrapped ''Payment initiation failed'' e)
      | Inr r \<Rightarrow> Inr (push_result r))"
  using assms by (simp add: initiateSTKPush_def Let_def split: sum.splits)

text \<open>
  Claim C2, as stated, fails in one point: with a response code other than \<open>"0"\<close> the
  message is not always the \<open>ResponseDescription\<close> of the provider. When the description
  is the empty string the message is the fixed text \<open>Payment request failed\<close>.
\<close>

theorem initiateSTKPush_message_counterexample:
  "ResponseDescription (example_ack\<lparr>ResponseCode := Some ''1'', ResponseDescription := Some []\<rparr>)
     = Some []
   \<and> map_sum id message
       (fst (initiateSTKPush example_platform
          (fixed_provider (Inr example_token)
             (Inr (example_ack\<lparr>ResponseCode := Some ''1'', ResponseDescription := Some []\<rparr>))
             (Inl (Error ''unused'')))
          example_clock example_request (new_service example_config 0)))
     = Inr ''Payment request failed''"
  by (simp add: initiateSTKPush_def getAccessToken_def fixed_provider_def new_service_def
      example_token_def example_ack_def example_clock_def push_result_def
      or_else_def truthy_def issue_def Let_def)

text \<open>
  Claim C2, amended: when the token is obtained and the provider answers the push request,
  \<open>initiateSTKPush\<close> returns a value and does not throw, whatever the response code. Code
  \<open>"0"\<close> gives \<open>success = true\<close> with both correlation identifiers and the customer message
  of the provider. Any other code gives \<open>success = false\<close>, the identifiers the provider
  supplied (the empty string for a missing one), and as message the \<open>ResponseDescription\<close>
  of the provider when it is not empty, the fixed text \<open>Payment request failed\<close> when it is
  empty or missing. The call throws only when obtaining the token fails or the push
  request itself is rejected, and then with that failure as the cause.
\<close>

theorem initiateSTKPush_outcome:
  "(getAccessToken pf net clk svc = (Inr token, svc')
      \<and> stkpush net (stkPushData pf clk req svc') (''Bearer '' @ token) = Inr r \<longrightarrow>
      fst (initiateSTKPush pf net clk req svc) = Inr
        (if ResponseCode r = Some ''0''
         then \<lparr>success = True,
               pay_transactionId = push_MerchantRequestID r,
               pay_checkoutRequestId = push_CheckoutRequestID r,
               message = ''Payment request sent successfully'',
               customerMessage = CustomerMessage r\<rparr>
         else \<lparr>success = False,
               pay_transactionId =
                 Some (case push_MerchantRequestID r of None \<Rightarrow> [] | Some m \<Rightarrow> m),
               pay_checkoutRequestId =
                 Some (case push_CheckoutRequestID r of None \<Rightarrow> [] | Some c \<Rightarrow> c),
               message =
                 (case ResponseDescription r of
                    None \<Rightarrow> ''Payment request failed''
                  | Some d \<Rightarrow> if d = [] then ''Payment request failed'' else d),
               customerMessage = None\<rparr>))
   \<and> (fst (initiateSTKPush pf net clk req svc) = Inl e \<longrightarrow>
        (\<exists>cause. e = Wrapped ''Payment initiation failed'' cause
           \<and> (fst (getAccessToken pf net clk svc) = Inl cause
               \<or> (\<exists>tok s. getAccessToken pf net clk svc = (Inr tok, s)
                     \<and> stkpush net (stkPushData pf clk req s) (''Bearer '' @ tok) = Inl cause))))"
proof (intro conjI impI)
  assume h: "getAccessToken pf net clk svc = (Inr token, svc')
      \<and> stkpush net (stkPushData pf clk req svc') (''Bearer '' @ token) = Inr r"
  then have "fst (initiateSTKPush pf net clk req svc) = Inr (push_result r)"
    by (simp add: initiateSTKPush_token_ok [of pf net clk svc token svc'])
  then show "fst (initiateSTKPush pf net clk req svc) = Inr
        (if ResponseCode r = Some ''0''
         then \<lparr>success = True,
               pay_transactionId = push_MerchantRequestID r,
               pay_checkoutRequestId = push_CheckoutRequestID r,
               message = ''Payment request sent successfully'',
               customerMessage = CustomerMessage r\<rparr>
         else \<lparr>success = False,
               pay_transactionId =
                 Some (case push_MerchantRequestID r of None \<Rightarrow> [] | Some m \<Rightarrow> m),
               pay_checkoutRequestId =
                 Some (case push_CheckoutRequestID r of None \<Rightarrow> [] | Some c \<Rightarrow> c),
               message =
                 (case ResponseDescription r of
                    None \<Rightarrow> ''Payment request failed''
                  | Some d \<Rightarrow> if d = [] then ''Payment request failed'' else d),
               customerMessage = None\<rparr>)"
    by (simp add: push_result_def or_else_def split: option.splits)
next
  assume f: "fst (initiateSTKPush pf net clk req svc) = Inl e"
  obtain res s where g: "getAccessToken pf net clk svc = (res, s)"
    by (cases "getAccessToken pf net clk svc")
  show "\<exists>cause. e = Wrapped ''Payment initiation failed'' cause
           \<and> (fst (getAccessToken pf net clk svc) = Inl cause
               \<or> (\<exists>tok s. getAccessToken pf net clk svc = (Inr tok, s)
                     \<and> stkpush net (stkPushData pf clk req s) (''Bearer '' @ tok) = Inl cause))"
  proof (cases res)
    case (Inl c)
    with g have "fst (getAccessToken pf net clk svc) = Inl c" by simp
    with f initiateSTKPush_token_failed [of pf net clk svc c req] show ?thesis by auto
  next
    case (Inr tok)
    with g have g': "getAccessToken pf net clk svc = (Inr tok, s)" by simp
    from f initiateSTKPush_token_ok [OF g', of req]
    obtain c where "stkpush net (stkPushData pf clk req s) (''Bearer '' @ tok) = Inl c"
      and "e = Wrapped ''Payment initiation failed'' c"
      by (auto split: sum.splits)
    with g' show ?thesis by auto
  qed
qed

theorem initiateSTKPush_outcome_witness:
  "fst (initiateSTKPush example_platform
          (fixed_provider (Inr example_token) (Inr example_ack) (Inl (Error ''unused'')))
          example_clock example_request (new_service example_config 0))
     = Inr \<lparr>success = True,
             pay_transactionId = Some ''29115-34620561-1'',
             pay_checkoutRequestId = Some ''ws_CO_191220191020363925'',
             message = ''Payment request sent successfully'',
             customerMessage = Some ''Success. Request accepted for processing''\<rparr>
   \<and> fst (initiateSTKPush example_platform
          (fixed_provider (Inr example_token)
             (Inr \<lparr>push_MerchantRequestID = None, push_CheckoutRequestID = None,
                   ResponseCode = Some ''1'',
                   ResponseDescription = Some ''Unable to lock subscriber'',
                   CustomerMessage = None\<rparr>)
             (Inl (Error ''unused'')))
          example_clock example_request (new_service example_config 0))
     = Inr \<lparr>success = False, pay_transactionId = Some [], pay_checkoutRequestId = Some [],
             message = ''Unable to lock subscriber'', customerMessage = None\<rparr>
   \<and> (\<exists>cause.
        fst (initiateSTKPush example_platform
               (fixed_provider (Inr example_token) (Inl (Error ''timeout of 30000ms exceeded''))
                  (Inl (Error ''unused'')))
               example_clock example_request (new_service example_config 0))
          = Inl (Wrapped ''Payment initiation failed'' cause))"
proof (intro conjI)
  let ?svc = "new_service example_config 0"
  let ?svc' = "\<lparr>accessToken = ''t0ken'', tokenExpiry = 3301200, config = example_config,
         sent = [GetToken ''/oauth/v1/generate?grant_type=client_credentials''
                   ''Basic key:secret'']\<rparr>"
  have g: "getAccessToken example_platform (fixed_provider (Inr example_token) b c)
             example_clock ?svc = (Inr ''t0ken'', ?svc')" for b c
    by (simp add: getAccessToken_def new_service_def example_clock_def example_config_def
        example_platform_def example_token_def fixed_provider_def credentials_def truthy_def
        issue_def Let_def)
  have p: "stkpush (fixed_provider a b c) body auth = b" for a b c body auth
    by (simp add: fixed_provider_def)
  show "fst (initiateSTKPush example_platform
          (fixed_provider (Inr example_token) (Inr example_ack) (Inl (Error ''unused'')))
          example_clock example_request ?svc)
     = Inr \<lparr>success = True,
             pay_transactionId = Some ''29115-34620561-1'',
             pay_checkoutRequestId = Some ''ws_CO_191220191020363925'',
             message = ''Payment request sent successfully'',
             customerMessage = Some ''Success. Request accepted for processing''\<rparr>"
    using initiateSTKPush_outcome
      [where pf = example_platform and clk = example_clock and svc = ?svc and svc' = ?svc'
         and token = "''t0ken''" and req = example_request and r = example_ack
         and net = "fixed_provider (Inr example_token) (Inr example_ack) (Inl (Error ''unused''))"]
    by (simp add: g p) (simp add: example_ack_def)
  show "fst (initiateSTKPush example_platform
          (fixed_provider (Inr example_token)
             (Inr \<lparr>push_MerchantRequestID = None, push_CheckoutRequestID = None,
                   ResponseCode = Some ''1'',
                   ResponseDescription = Some ''Unable to lock subscriber'',
                   CustomerMessage = None\<rparr>)
             (Inl (Error ''unused'')))
          example_clock example_request ?svc)
     = Inr \<lparr>success = False, pay_transactionId = Some [], pay_checkoutRequestId = Some [],
             message = ''Unable to lock subscriber'', customerMessage = None\<rparr>"
    using initiateSTKPush_outcome
      [where pf = example_platform and clk = example_clock and svc = ?svc and svc' = ?svc'
         and token = "''t0ken''" and req = example_request
         and r = "\<lparr>push_MerchantRequestID = None, push_CheckoutRequestID = None,
                   ResponseCode = Some ''1'',
                   ResponseDescription = Some ''Unable to lock subscriber'',
                   CustomerMessage = None\<rparr>"
         and net = "fixed_provider (Inr example_token)
             (Inr \<lparr>push_MerchantRequestID = None, push_CheckoutRequestID = None,
                   ResponseCode = Some ''1'',
                   ResponseDescription = Some ''Unable to lock subscriber'',
                   CustomerMessage = None\<rparr>)
             (Inl (Error ''unused''))"]
    by (simp add: g p)
  have f: "fst (initiateSTKPush example_platform
               (fixed_provider (Inr example_token) (Inl (Error ''timeout of 30000ms exceeded''))
                  (Inl (Error ''unused'')))
               example_clock example_request ?svc)
          = Inl (Wrapped ''Payment initiation failed'' (Error ''timeout of 30000ms exceeded''))"
    by (simp add: initiateSTKPush_def g p Let_def)
  show "\<exists>cause.
        fst (initiateSTKPush example_platform
               (fixed_provider (Inr example_token) (Inl (Error ''timeout of 30000ms exceeded''))
                  (Inl (Error ''unused'')))
               example_clock example_request ?svc)
          = Inl (Wrapped ''Payment initiation failed'' cause)"
    using initiateSTKPush_outcome
      [where pf = example_platform and clk = example_clock and svc = ?svc
         and req = example_request
         and e = "Wrapped ''Payment initiation failed'' (Error ''timeout of 30000ms exceeded'')"
         and net = "fixed_provider (Inr example_token)
                      (Inl (Error ''timeout of 30000ms exceeded'')) (Inl (Error ''unused''))"]
      f
    by simp
qed

end
